theory Spec2Isabelle
  imports Main
begin

section \<open>Python values\<close>

text \<open>
  The GLM code works on Python dictionaries whose keys are text (field names) or
  integers (positions of statements, and nested blocks), and whose values are text,
  numbers or further dictionaries.  A dictionary keeps its insertion order, which the
  serializer and the index builder both follow, so it is an association list with
  distinct keys.  A float is carried as the text \<open>str()\<close> gives for it.
\<close>

datatype key = KInt int | KStr string

datatype pyval = VStr string | VInt int | VFloat string | VDict "(key \<times> pyval) list"

type_synonym pydict = "(key \<times> pyval) list"

datatype warning =
    MultipleClocks
  | ModulePresent pyval
  | MalformedModule
  | ObjectExists pyval pyval
  | KeysMustBeStrings
  | NoAddMethod string
  | NameNeeded
  | CannotModify string
  | CannotRemoveProperties string
  | NonexistentField key
  | ObjectMissing pyval pyval
  | ModuleMissing pyval
  | ClockMissing
  | UnknownType
  | UnimplementedItem

datatype pyerr =
    IndexError | KeyError | AttributeError | TypeError | ValueError
  | UserWarning warning

text \<open>\<open>d[k]\<close>, \<open>d[k] = v\<close> (an existing key keeps its place, a new one goes last),
  \<open>del d[k]\<close> and \<open>k in d\<close>.\<close>

definition dict_get :: "('k \<times> 'v) list \<Rightarrow> 'k \<Rightarrow> 'v option" where
  "dict_get d k = map_of d k"

fun dict_set :: "('k \<times> 'v) list \<Rightarrow> 'k \<Rightarrow> 'v \<Rightarrow> ('k \<times> 'v) list" where
  "dict_set [] k v = [(k, v)]"
| "dict_set ((k', v') # d) k v =
     (if k' = k then (k, v) # d else (k', v') # dict_set d k v)"

definition dict_del :: "('k \<times> 'v) list \<Rightarrow> 'k \<Rightarrow> ('k \<times> 'v) list" where
  "dict_del d k = filter (\<lambda>kv. fst kv \<noteq> k) d"

definition dict_keys :: "('k \<times> 'v) list \<Rightarrow> 'k list" where
  "dict_keys d = map fst d"

definition has_key :: "('k \<times> 'v) list \<Rightarrow> 'k \<Rightarrow> bool" where
  "has_key d k = (k \<in> set (map fst d))"

section \<open>Text helpers\<close>

definition newline :: char where
  "newline = CHR 0x0A"

definition tab :: char where
  "tab = CHR 0x09"

definition carriage_return :: char where
  "carriage_return = CHR 0x0D"

definition NL :: string where
  "NL = [newline]"

text \<open>\<open>s.replace(a, b)\<close> for one-character \<open>a\<close> and \<open>b\<close>,
  \<open>s.split(a)[0]\<close>, \<open>sep.join(xs)\<close>.\<close>

definition replace_char :: "char \<Rightarrow> char \<Rightarrow> string \<Rightarrow> string" where
  "replace_char a b s = map (\<lambda>c. if c = a then b else c) s"

definition split_head :: "char \<Rightarrow> string \<Rightarrow> string" where
  "split_head a s = takeWhile (\<lambda>c. c \<noteq> a) s"

fun join :: "string \<Rightarrow> string list \<Rightarrow> string" where
  "join sep [] = []"
| "join sep [x] = x"
| "join sep (x # y # ys) = x @ sep @ join sep (y # ys)"

section \<open>Tokenizer\<close>

text \<open>The characters that \<open>\s\<close> matches, among the ASCII characters the model covers.\<close>

definition is_space :: "char \<Rightarrow> bool" where
  "is_space c = (c \<in> set [CHR 0x20, CHR 0x09, CHR 0x0A, CHR 0x0B, CHR 0x0C, CHR 0x0D,
                            CHR 0x1C, CHR 0x1D, CHR 0x1E, CHR 0x1F])"

definition is_delim :: "char \<Rightarrow> bool" where
  "is_delim c = (c = CHR '';'' \<or> c = CHR ''}'' \<or> c = CHR ''{'' \<or> is_space c)"

text \<open>\<open>re.sub(r'http:\/\/', '', data)\<close>.\<close>

fun strip_http :: "string \<Rightarrow> string" where
  "strip_http [] = []"
| "strip_http (c # cs) =
     (if take 7 (c # cs) = ''http://'' then strip_http (drop 6 cs) else c # strip_http cs)"

text \<open>\<open>re.sub(r'\/\/.*(\s*)', '', data)\<close>: from \<open>//\<close> to the end of the line, and
  the white space after it, line breaks included.\<close>

function strip_comments :: "string \<Rightarrow> string" where
  "strip_comments [] = []"
| "strip_comments [c] = [c]"
| "strip_comments (c # d # cs) =
     (if c = CHR ''/'' \<and> d = CHR ''/''
      then strip_comments (dropWhile is_space (dropWhile (\<lambda>x. x \<noteq> newline) cs))
      else c # strip_comments (d # cs))"
  by pat_completeness auto
termination
proof (relation "measure length")
  fix c d :: char and cs :: string
  have "length (dropWhile is_space (dropWhile (\<lambda>x. x \<noteq> newline) cs)) \<le> length cs"
    by (meson length_dropWhile_le le_trans)
  then show "(dropWhile is_space (dropWhile (\<lambda>x. x \<noteq> newline) cs), c # d # cs)
               \<in> measure length"
    by simp
qed simp_all

text \<open>\<open>re.split(r'(;|\}|\{|\s)', data)\<close> followed by the filter that drops the empty
  strings and the single blanks: \<open>w\<close> is the word read so far.\<close>

fun split_tokens :: "string \<Rightarrow> string \<Rightarrow> string list" where
  "split_tokens w [] = (if w = [] then [] else [w])"
| "split_tokens w (c # cs) =
     (if is_delim c
      then (if w = [] then [] else [w]) @ (if c = CHR '' '' then [] else [[c]])
             @ split_tokens [] cs
      else split_tokens (w @ [c]) cs)"

text \<open>\<open>_tokenize_glm(input_str, file_path=False)\<close>.\<close>

definition tokenize_glm :: "string \<Rightarrow> string list" where
  "tokenize_glm input_str =
     (let data = strip_http input_str;
          data = strip_comments data;
          data = replace_char tab (CHR '' '') (filter (\<lambda>c. c \<noteq> carriage_return) data)
      in split_tokens [] data)"

section \<open>Tree builder\<close>

text \<open>\<open>list_to_string\<close>: \<open>reduce\<close> on the empty slice raises \<open>TypeError\<close>.\<close>

definition list_to_string :: "string list \<Rightarrow> pyerr + string" where
  "list_to_string list_in =
     (if length list_in = 0 then Inr []
      else (case butlast (tl list_in) of
              [] \<Rightarrow> Inl TypeError
            | x # xs \<Rightarrow> Inr (foldl (\<lambda>a b. a @ '' '' @ b) x xs)))"

text \<open>\<open>current_leaf_add\<close>: walk down the stack of open blocks, then assign.  The
  parser binds integer keys to dictionaries only, so the walk never meets another
  value; the model answers \<open>TypeError\<close> there.\<close>

fun current_leaf_add :: "key \<Rightarrow> pyval \<Rightarrow> pydict \<Rightarrow> int list \<Rightarrow> pyerr + pydict" where
  "current_leaf_add key_f v tree_f [] = Inr (dict_set tree_f key_f v)"
| "current_leaf_add key_f v tree_f (x # xs) =
     (case dict_get tree_f (KInt x) of
        None \<Rightarrow> Inl KeyError
      | Some (VDict c) \<Rightarrow>
          (case current_leaf_add key_f v c xs of
             Inl e \<Rightarrow> Inl e
           | Inr c' \<Rightarrow> Inr (dict_set tree_f (KInt x) (VDict c')))
      | Some _ \<Rightarrow> Inl TypeError)"

record pstate =
  tree :: pydict
  guid :: int
  guid_stack :: "int list"

definition terminators :: "string list" where
  "terminators = [''{'', '';'', ''}'', NL, ''shape'']"

text \<open>The inner \<open>while\<close> loops: pop tokens onto \<open>full_token\<close> until it ends with a
  stop token; popping from the empty list raises \<open>IndexError\<close>.\<close>

fun collect_token ::
  "string list \<Rightarrow> string list \<Rightarrow> string list \<Rightarrow> pyerr + (string list \<times> string list)" where
  "collect_token stops full_token [] =
     (if full_token \<noteq> [] \<and> last full_token \<in> set stops then Inr (full_token, [])
      else Inl IndexError)"
| "collect_token stops full_token (t # ts) =
     (if full_token \<noteq> [] \<and> last full_token \<in> set stops then Inr (full_token, t # ts)
      else collect_token stops (full_token @ [t]) ts)"

text \<open>The two directive branches, \<open>#set\<close> and \<open>#include\<close>.\<close>

definition directive_item :: "string list \<Rightarrow> pyerr + pyval" where
  "directive_item full_token =
     (case list_to_string full_token of
        Inl e \<Rightarrow> Inl e
      | Inr a \<Rightarrow>
          if last full_token = '';''
          then Inr (VDict [(KStr ''omftype'', VStr (hd full_token)), (KStr ''argument'', VStr a)])
          else Inr (VDict [(KStr (hd full_token), VStr a)]))"

text \<open>One turn of the main loop after \<open>full_token\<close> has been collected:
  the \<open>if\<close>/\<open>elif\<close> chain, in the source's order.\<close>

definition parse_statement ::
  "string list \<Rightarrow> string list \<Rightarrow> pstate \<Rightarrow> pyerr + (pstate \<times> string list)" where
  "parse_statement full_token token_list s =
    (if full_token = [] then Inl IndexError
     else if hd full_token = ''#set'' \<or> hd full_token = ''#include'' then
       (case directive_item full_token of
          Inl e \<Rightarrow> Inl e
        | Inr item \<Rightarrow>
            Inr (s\<lparr>tree := dict_set (tree s) (KInt (guid s)) item, guid := guid s + 1\<rparr>,
                 token_list))
     else if hd full_token = ''shape'' then
       (case collect_token [NL] full_token token_list of
          Inl e \<Rightarrow> Inl e
        | Inr (ft, rest) \<Rightarrow>
            if length ft < 2 then Inl IndexError
            else
              (let ft' = ft[length ft - 2 := []] in
               case list_to_string (butlast ft') of
                 Inl e \<Rightarrow> Inl e
               | Inr a \<Rightarrow>
                   (case current_leaf_add (KStr (hd ft')) (VStr a) (tree s) (guid_stack s) of
                      Inl e \<Rightarrow> Inl e
                    | Inr t \<Rightarrow> Inr (s\<lparr>tree := t, guid := guid s + 1\<rparr>, rest))))
     else if last full_token = NL \<or> last full_token = '';'' then
       (if guid_stack s = [] \<and> full_token \<noteq> [NL] \<and> full_token \<noteq> ['';''] then
          (case list_to_string full_token of
             Inl e \<Rightarrow> Inl e
           | Inr a \<Rightarrow>
               Inr (s\<lparr>tree := dict_set (tree s) (KInt (guid s))
                              (VDict [(KStr ''omftype'', VStr (hd full_token)),
                                      (KStr ''argument'', VStr a)]),
                       guid := guid s + 1\<rparr>, token_list))
        else if length full_token > 1 then
          (case list_to_string full_token of
             Inl e \<Rightarrow> Inl e
           | Inr a \<Rightarrow>
               (case current_leaf_add (KStr (hd full_token)) (VStr a) (tree s) (guid_stack s) of
                  Inl e \<Rightarrow> Inl e
                | Inr t \<Rightarrow> Inr (s\<lparr>tree := t\<rparr>, token_list)))
        else Inr (s, token_list))
     else if last full_token = ''}'' then
       (case (if length full_token > 1
              then (case list_to_string full_token of
                      Inl e \<Rightarrow> Inl e
                    | Inr a \<Rightarrow> current_leaf_add (KStr (hd full_token)) (VStr a)
                                 (tree s) (guid_stack s))
              else Inr (tree s)) of
          Inl e \<Rightarrow> Inl e
        | Inr t \<Rightarrow>
            if guid_stack s = [] then Inl IndexError
            else Inr (s\<lparr>tree := t, guid_stack := butlast (guid_stack s)\<rparr>, token_list))
     else if hd full_token = ''schedule'' then
       (case collect_token [''}''] full_token token_list of
          Inl e \<Rightarrow> Inl e
        | Inr (ft, rest) \<Rightarrow>
            if length ft < 2 then Inl IndexError
            else
              Inr (s\<lparr>tree := dict_set (tree s) (KInt (guid s))
                             (VDict [(KStr ''object'', VStr ''schedule''),
                                     (KStr ''name'', VStr (ft ! 1)),
                                     (KStr ''cron'',
                                        VStr (join '' '' (take (length ft - 2 - 3) (drop 3 ft))))]),
                      guid := guid s + 1\<rparr>, rest))
     else if last full_token = ''{'' then
       (case current_leaf_add (KInt (guid s)) (VDict []) (tree s) (guid_stack s) of
          Inl e \<Rightarrow> Inl e
        | Inr t \<Rightarrow>
            (let stack' = guid_stack s @ [guid s];
                 s' = s\<lparr>tree := t, guid_stack := stack', guid := guid s + 1\<rparr>
             in if length full_token > 1 then
                  (if length full_token < 4 then
                     (case current_leaf_add (KStr (hd full_token))
                             (VStr (full_token ! (length full_token - 2))) t stack' of
                        Inl e \<Rightarrow> Inl e
                      | Inr t' \<Rightarrow> Inr (s'\<lparr>tree := t'\<rparr>, token_list))
                   else
                     (case list_to_string full_token of
                        Inl e \<Rightarrow> Inl e
                      | Inr a \<Rightarrow>
                          (case current_leaf_add (KStr ''omfEmbeddedConfigObject'')
                                  (VStr (hd full_token @ '' '' @ a)) t stack' of
                             Inl e \<Rightarrow> Inl e
                           | Inr t' \<Rightarrow> Inr (s'\<lparr>tree := t'\<rparr>, token_list))))
                else Inr (s', token_list)))
     else Inr (s, token_list))"

lemma collect_token_length:
  "collect_token stops ft toks = Inr (ft', rest) \<Longrightarrow> length rest \<le> length toks"
  by (induction stops ft toks rule: collect_token.induct) (auto split: if_splits)

lemma collect_token_shorter:
  "collect_token stops [] (t # ts) = Inr (ft', rest) \<Longrightarrow> length rest < Suc (length ts)"
  using collect_token_length [of stops "[t]" ts ft' rest] by simp

lemma parse_statement_length:
  "parse_statement ft toks s = Inr (s', rest) \<Longrightarrow> length rest \<le> length toks"
  unfolding parse_statement_def
  by (auto split: if_splits sum.splits prod.splits simp: Let_def dest: collect_token_length)

text \<open>The main loop, \<open>while token_list:\<close>.\<close>

function parse_loop :: "string list \<Rightarrow> pstate \<Rightarrow> pyerr + pstate" where
  "parse_loop [] s = Inr s"
| "parse_loop (t # ts) s =
     (case collect_token terminators [] (t # ts) of
        Inl e \<Rightarrow> Inl e
      | Inr (full_token, rest) \<Rightarrow>
          (case parse_statement full_token rest s of
             Inl e \<Rightarrow> Inl e
           | Inr (s', rest') \<Rightarrow> parse_loop rest' s'))"
  by pat_completeness auto
termination
proof (relation "measure (\<lambda>(toks, s). length toks)")
  fix t :: string and ts :: "string list" and s :: pstate
    and x :: "string list \<times> string list" and full_token rest :: "string list"
    and y :: "pstate \<times> string list" and s' :: pstate and rest' :: "string list"
  assume c: "collect_token terminators [] (t # ts) = Inr x" "(full_token, rest) = x"
    and p: "parse_statement full_token rest s = Inr y" "(s', rest') = y"
  from c have "length rest < Suc (length ts)"
    using collect_token_shorter [of terminators t ts full_token rest] by simp
  moreover from p have "length rest' \<le> length rest"
    using parse_statement_length [of full_token rest s s' rest'] by simp
  ultimately show "((rest', s'), t # ts, s) \<in> measure (\<lambda>(toks, s). length toks)"
    by simp
qed simp

section \<open>Legacy normalization (the pass after the main loop)\<close>

text \<open>\<open>tree[key][line] = tree[key][line].replace(':', '_')\<close> for every line of an
  item: a value that is not text has no \<open>replace\<close>.\<close>

fun replace_colons :: "pydict \<Rightarrow> pyerr + pydict" where
  "replace_colons [] = Inr []"
| "replace_colons ((k, v) # d) =
     (case v of
        VStr x \<Rightarrow>
          (case replace_colons d of
             Inl e \<Rightarrow> Inl e
           | Inr d' \<Rightarrow> Inr ((k, VStr (replace_char (CHR '':'') (CHR ''_'') x)) # d'))
      | _ \<Rightarrow> Inl AttributeError)"

text \<open>\<open>if f in tree[key]: tree[key][f] = tree[key][f].replace('-', '_')\<close>.\<close>

definition replace_hyphens :: "string \<Rightarrow> pydict \<Rightarrow> pyerr + pydict" where
  "replace_hyphens f d =
     (case dict_get d (KStr f) of
        None \<Rightarrow> Inr d
      | Some (VStr x) \<Rightarrow> Inr (dict_set d (KStr f) (VStr (replace_char (CHR ''-'') (CHR ''_'') x)))
      | Some _ \<Rightarrow> Inl AttributeError)"

definition legacy_deletable :: "string list" where
  "legacy_deletable = [''recorder'', ''group_recorder'', ''collector'']"

text \<open>The body of the loop for one item that has an \<open>object\<close> key; the flag says
  whether the key was appended to \<open>objects_to_delete\<close>.\<close>

definition normalise_object :: "pydict \<Rightarrow> pyerr + (pydict \<times> bool)" where
  "normalise_object d =
     (case dict_get d (KStr ''object'') of
        Some (VStr obj) \<Rightarrow>
          (let d1 = (if \<not> has_key d (KStr ''name'') \<and> CHR '':'' \<in> set obj
                     then dict_set d (KStr ''name'')
                            (VStr (replace_char (CHR '':'') (CHR ''_'') obj))
                     else d);
               d2 = dict_set d1 (KStr ''object'') (VStr (split_head (CHR '':'') obj))
           in case replace_colons d2 of
                Inl e \<Rightarrow> Inl e
              | Inr d3 \<Rightarrow>
                  (let ty = dict_get d3 (KStr ''object'');
                       del = (ty \<in> set (map (\<lambda>x. Some (VStr x)) legacy_deletable));
                       d4 = (if ty = Some (VStr ''fuse'')
                                \<and> \<not> has_key d3 (KStr ''mean_replacement_time'')
                             then dict_set d3 (KStr ''mean_replacement_time'') (VFloat ''3600.0'')
                             else d3)
                   in case replace_hyphens ''name'' d4 of
                        Inl e \<Rightarrow> Inl e
                      | Inr d5 \<Rightarrow>
                          (case replace_hyphens ''parent'' d5 of
                             Inl e \<Rightarrow> Inl e
                           | Inr d6 \<Rightarrow>
                               (case replace_hyphens ''from'' d6 of
                                  Inl e \<Rightarrow> Inl e
                                | Inr d7 \<Rightarrow>
                                    (case replace_hyphens ''to'' d7 of
                                       Inl e \<Rightarrow> Inl e
                                     | Inr d8 \<Rightarrow> Inr (d8, del))))))
      | _ \<Rightarrow> Inl AttributeError)"

text \<open>\<open>for key in list(tree.keys())\<close>: every entry of the tree must be a dictionary
  (\<open>tree[key].keys()\<close>); the result is the tree and \<open>objects_to_delete\<close>.\<close>

fun normalise_tree :: "pydict \<Rightarrow> pyerr + (pydict \<times> key list)" where
  "normalise_tree [] = Inr ([], [])"
| "normalise_tree ((k, v) # rest) =
     (case v of
        VDict d \<Rightarrow>
          (case (if has_key d (KStr ''object'') then normalise_object d else Inr (d, False)) of
             Inl e \<Rightarrow> Inl e
           | Inr (d', del) \<Rightarrow>
               (case normalise_tree rest of
                  Inl e \<Rightarrow> Inl e
                | Inr (rest', dels) \<Rightarrow>
                    Inr ((k, VDict d') # rest', (if del then [k] else []) @ dels)))
      | _ \<Rightarrow> Inl AttributeError)"

text \<open>\<open>_parse_token_list\<close>: the main loop from the empty tree, the normalization,
  then \<open>del tree[keys]\<close> for the collected keys.\<close>

definition parse_token_list :: "string list \<Rightarrow> pyerr + pydict" where
  "parse_token_list token_list =
     (case parse_loop token_list \<lparr>tree = [], guid = 0, guid_stack = []\<rparr> of
        Inl e \<Rightarrow> Inl e
      | Inr s \<Rightarrow>
          (case normalise_tree (tree s) of
             Inl e \<Rightarrow> Inl e
           | Inr (t, objects_to_delete) \<Rightarrow> Inr (foldl dict_del t objects_to_delete)))"

text \<open>\<open>parse(input_str, file_path=False)\<close>.\<close>

definition parse :: "string \<Rightarrow> pyerr + pydict" where
  "parse input_str = parse_token_list (tokenize_glm input_str)"

section \<open>Serializer\<close>

text \<open>\<open>str(v)\<close>.  The text of a dictionary is Python's \<open>repr\<close>, written here for
  keys and values without quotes or escapes in them.\<close>

fun digits_of :: "nat \<Rightarrow> string" where
  "digits_of n =
     (if n < 10 then [char_of (48 + n)] else digits_of (n div 10) @ [char_of (48 + n mod 10)])"

definition str_int :: "int \<Rightarrow> string" where
  "str_int i = (if i < 0 then ''-'' @ digits_of (nat (- i)) else digits_of (nat i))"

fun py_repr :: "pyval \<Rightarrow> string"
  and repr_items :: "pydict \<Rightarrow> string list" where
  "py_repr (VStr x) = [CHR 0x27] @ x @ [CHR 0x27]"
| "py_repr (VInt i) = str_int i"
| "py_repr (VFloat r) = r"
| "py_repr (VDict d) = ''{'' @ join '', '' (repr_items d) @ ''}''"
| "repr_items [] = []"
| "repr_items ((k, v) # d) =
     ((case k of KInt i \<Rightarrow> str_int i | KStr x \<Rightarrow> [CHR 0x27] @ x @ [CHR 0x27])
        @ '': '' @ py_repr v) # repr_items d"

definition py_str :: "pyval \<Rightarrow> string" where
  "py_str v = (case v of VStr x \<Rightarrow> x | _ \<Rightarrow> py_repr v)"

text \<open>\<open>a + v\<close> where \<open>a\<close> is text: \<open>v\<close> must be text too.\<close>

definition as_text :: "pyval \<Rightarrow> pyerr + string" where
  "as_text v = (case v of VStr x \<Rightarrow> Inr x | _ \<Rightarrow> Inl TypeError)"

definition field_text :: "pydict \<Rightarrow> string \<Rightarrow> pyerr + string" where
  "field_text d f = (case dict_get d (KStr f) of None \<Rightarrow> Inl KeyError | Some v \<Rightarrow> as_text v)"

text \<open>One line of the clock block: \<open>if f in in_dict: clock_string = clock_string +
  '\t' + f + ' ' + in_dict[f] + ';\n'\<close>.\<close>

definition clock_line :: "pydict \<Rightarrow> string \<Rightarrow> pyerr + string" where
  "clock_line d f =
     (case dict_get d (KStr f) of
        None \<Rightarrow> Inr []
      | Some v \<Rightarrow>
          (case as_text v of
             Inl e \<Rightarrow> Inl e
           | Inr x \<Rightarrow> Inr ([tab] @ f @ '' '' @ x @ '';'' @ NL)))"

definition clock_to_string :: "pydict \<Rightarrow> pyerr + string" where
  "clock_to_string d =
     (case clock_line d ''timezone'' of
        Inl e \<Rightarrow> Inl e
      | Inr a \<Rightarrow>
          (case clock_line d ''starttime'' of
             Inl e \<Rightarrow> Inl e
           | Inr b \<Rightarrow>
               (case clock_line d ''stoptime'' of
                  Inl e \<Rightarrow> Inl e
                | Inr c \<Rightarrow> Inr (''clock {'' @ NL @ a @ b @ c @ ''}'' @ NL))))"

text \<open>\<open>len(v)\<close> and \<open>v[x]\<close> as the class branch uses them on \<open>variable_types\<close> and
  \<open>variable_names\<close>: on text they give the length and a one-character text.\<close>

definition py_len :: "pyval \<Rightarrow> pyerr + nat" where
  "py_len v = (case v of VStr x \<Rightarrow> Inr (length x) | VDict d \<Rightarrow> Inr (length d)
               | _ \<Rightarrow> Inl TypeError)"

definition py_item :: "pyval \<Rightarrow> nat \<Rightarrow> pyerr + string" where
  "py_item v x =
     (case v of
        VStr y \<Rightarrow> (if x < length y then Inr [y ! x] else Inl IndexError)
      | VDict d \<Rightarrow> (case dict_get d (KInt (int x)) of None \<Rightarrow> Inl KeyError
                                                       | Some w \<Rightarrow> as_text w)
      | _ \<Rightarrow> Inl TypeError)"

fun class_lines :: "pyval \<Rightarrow> pyval \<Rightarrow> nat list \<Rightarrow> pyerr + string" where
  "class_lines tys nms [] = Inr []"
| "class_lines tys nms (x # xs) =
     (case py_item tys x of
        Inl e \<Rightarrow> Inl e
      | Inr a \<Rightarrow>
          (case py_item nms x of
             Inl e \<Rightarrow> Inl e
           | Inr b \<Rightarrow>
               (case class_lines tys nms xs of
                  Inl e \<Rightarrow> Inl e
                | Inr r \<Rightarrow> Inr ([tab] @ a @ '' '' @ b @ '';'' @ NL @ r))))"

text \<open>One scalar field of \<open>_gather_key_values\<close> (a text key other than the one to
  avoid).  The warning that goes with a truncation is not part of the returned text.\<close>

definition field_line :: "string \<Rightarrow> pyval \<Rightarrow> pyerr + string" where
  "field_line k v =
     (if k = ''comment'' then
        (case as_text v of Inl e \<Rightarrow> Inl e | Inr x \<Rightarrow> Inr (x @ NL))
      else if k = ''name'' \<or> k = ''parent'' then
        (case py_len v of
           Inl e \<Rightarrow> Inl e
         | Inr n \<Rightarrow>
             if n \<le> 62 then Inr ([tab] @ k @ '' '' @ py_str v @ '';'' @ NL)
             else (case as_text v of
                     Inl e \<Rightarrow> Inl e
                   | Inr x \<Rightarrow> Inr ([tab] @ k @ '' '' @ take 62 x
                                     @ ''; // truncated from '' @ x @ NL)))
      else Inr ([tab] @ k @ '' '' @ py_str v @ '';'' @ NL))"

text \<open>\<open>_dict_to_string\<close> and \<open>_gather_key_values\<close>.  \<open>_dict_to_string\<close> returns
  \<open>None\<close> when no branch applies; adding \<open>None\<close> to text raises \<open>TypeError\<close> in
  both callers.  A value that is not a dictionary raises \<open>TypeError\<close> in every
  branch (\<open>'omftype' in v\<close> on a number, \<open>v['omftype']\<close> on text).\<close>

function dict_to_string :: "pydict \<Rightarrow> pyerr + string option"
  and gather_key_values :: "pydict \<Rightarrow> string \<Rightarrow> pyerr + string" where
  "dict_to_string in_dict =
     (if has_key in_dict (KStr ''omftype'') then
        (case field_text in_dict ''omftype'' of
           Inl e \<Rightarrow> Inl e
         | Inr a \<Rightarrow>
             (case field_text in_dict ''argument'' of
                Inl e \<Rightarrow> Inl e
              | Inr b \<Rightarrow> Inr (Some (a @ '' '' @ b @ '';''))))
      else if has_key in_dict (KStr ''module'') then
        (case field_text in_dict ''module'' of
           Inl e \<Rightarrow> Inl e
         | Inr a \<Rightarrow>
             (case gather_key_values in_dict ''module'' of
                Inl e \<Rightarrow> Inl e
              | Inr b \<Rightarrow> Inr (Some (''module '' @ a @ '' {'' @ NL @ b @ ''}'' @ NL))))
      else if has_key in_dict (KStr ''clock'') then
        (case clock_to_string in_dict of Inl e \<Rightarrow> Inl e | Inr a \<Rightarrow> Inr (Some a))
      else if has_key in_dict (KStr ''object'')
              \<and> dict_get in_dict (KStr ''object'') = Some (VStr ''schedule'') then
        (case field_text in_dict ''name'' of
           Inl e \<Rightarrow> Inl e
         | Inr a \<Rightarrow>
             (case field_text in_dict ''cron'' of
                Inl e \<Rightarrow> Inl e
              | Inr b \<Rightarrow> Inr (Some (''schedule '' @ a @ '' {'' @ NL @ b @ NL @ ''};'' @ NL))))
      else if has_key in_dict (KStr ''object'') then
        (case field_text in_dict ''object'' of
           Inl e \<Rightarrow> Inl e
         | Inr a \<Rightarrow>
             (case gather_key_values in_dict ''object'' of
                Inl e \<Rightarrow> Inl e
              | Inr b \<Rightarrow> Inr (Some (''object '' @ a @ '' {'' @ NL @ b @ ''};'' @ NL))))
      else if has_key in_dict (KStr ''omfEmbeddedConfigObject'') then
        (case field_text in_dict ''omfEmbeddedConfigObject'' of
           Inl e \<Rightarrow> Inl e
         | Inr a \<Rightarrow>
             (case gather_key_values in_dict ''omfEmbeddedConfigObject'' of
                Inl e \<Rightarrow> Inl e
              | Inr b \<Rightarrow> Inr (Some (a @ '' {'' @ NL @ b @ ''};'' @ NL))))
      else if has_key in_dict (KStr ''#include'') then
        (case field_text in_dict ''#include'' of
           Inl e \<Rightarrow> Inl e | Inr a \<Rightarrow> Inr (Some (''#include '' @ a)))
      else if has_key in_dict (KStr ''#define'') then
        (case field_text in_dict ''#define'' of
           Inl e \<Rightarrow> Inl e | Inr a \<Rightarrow> Inr (Some (''#define '' @ a @ NL)))
      else if has_key in_dict (KStr ''#set'') then
        (case field_text in_dict ''#set'' of
           Inl e \<Rightarrow> Inl e | Inr a \<Rightarrow> Inr (Some (''#set '' @ a)))
      else if has_key in_dict (KStr ''class'') then
        (case (if has_key in_dict (KStr ''variable_types'')
                  \<and> has_key in_dict (KStr ''variable_names'')
               then (case py_len (the (dict_get in_dict (KStr ''variable_types''))) of
                       Inl e \<Rightarrow> Inl e
                     | Inr n \<Rightarrow>
                         (case py_len (the (dict_get in_dict (KStr ''variable_names''))) of
                            Inl e \<Rightarrow> Inl e
                          | Inr m \<Rightarrow> Inr (if n = m then Some n else None)))
               else Inr None) of
           Inl e \<Rightarrow> Inl e
         | Inr (Some n) \<Rightarrow>
             (case field_text in_dict ''class'' of
                Inl e \<Rightarrow> Inl e
              | Inr a \<Rightarrow>
                  (case class_lines (the (dict_get in_dict (KStr ''variable_types'')))
                          (the (dict_get in_dict (KStr ''variable_names''))) [0..<n] of
                     Inl e \<Rightarrow> Inl e
                   | Inr b \<Rightarrow> Inr (Some (''class '' @ a @ '' {'' @ NL @ b @ ''}'' @ NL))))
         | Inr None \<Rightarrow>
             (case field_text in_dict ''class'' of
                Inl e \<Rightarrow> Inl e
              | Inr a \<Rightarrow>
                  (case gather_key_values in_dict ''class'' of
                     Inl e \<Rightarrow> Inl e
                   | Inr b \<Rightarrow> Inr (Some (''class '' @ a @ '' {'' @ NL @ b @ ''}'' @ NL)))))
      else Inr None)"
| "gather_key_values [] key_to_avoid = Inr []"
| "gather_key_values ((k, v) # rest) key_to_avoid =
     (case (case k of
              KInt i \<Rightarrow>
                (case v of
                   VDict c \<Rightarrow>
                     (case dict_to_string c of
                        Inl e \<Rightarrow> Inl e
                      | Inr None \<Rightarrow> Inl TypeError
                      | Inr (Some x) \<Rightarrow> Inr x)
                 | _ \<Rightarrow> Inl TypeError)
            | KStr f \<Rightarrow> (if f \<noteq> key_to_avoid then field_line f v else Inr [])) of
        Inl e \<Rightarrow> Inl e
      | Inr a \<Rightarrow>
          (case gather_key_values rest key_to_avoid of
             Inl e \<Rightarrow> Inl e
           | Inr b \<Rightarrow> Inr (a @ b)))"
  by pat_completeness auto
termination
  by (relation "inv_image (less_than <*lex*> less_than)
        (\<lambda>x. case x of Inl d \<Rightarrow> (size_list (size_prod (\<lambda>_. 0) size) d, Suc 0)
                      | Inr (d, a) \<Rightarrow> (size_list (size_prod (\<lambda>_. 0) size) d, 0))")
     auto

text \<open>The keys of a tree are integers.  The parser never leaves a text key at the top
  of a tree it returns, and the model does not follow Python through \<open>int()\<close>,
  \<open>max()\<close> and \<open>min()\<close> on such a key: \<open>int_keys\<close> answers \<open>None\<close> and the
  callers raise.\<close>

fun int_keys :: "pydict \<Rightarrow> (int \<times> pyval) list option" where
  "int_keys [] = Some []"
| "int_keys ((k, v) # d) =
     (case k of
        KStr x \<Rightarrow> None
      | KInt i \<Rightarrow> (case int_keys d of None \<Rightarrow> None | Some r \<Rightarrow> Some ((i, v) # r)))"

text \<open>\<open>sorted_write\<close>: the items in ascending key order, a line break after each.\<close>

fun write_items :: "(int \<times> pyval) list \<Rightarrow> pyerr + string" where
  "write_items [] = Inr []"
| "write_items ((k, v) # rest) =
     (case v of
        VDict d \<Rightarrow>
          (case dict_to_string d of
             Inl e \<Rightarrow> Inl e
           | Inr None \<Rightarrow> Inl TypeError
           | Inr (Some x) \<Rightarrow>
               (case write_items rest of Inl e \<Rightarrow> Inl e | Inr r \<Rightarrow> Inr (x @ NL @ r)))
      | _ \<Rightarrow> Inl TypeError)"

definition sorted_write :: "pydict \<Rightarrow> pyerr + string" where
  "sorted_write in_tree =
     (case int_keys in_tree of
        None \<Rightarrow> Inl ValueError
      | Some items \<Rightarrow> write_items (sort_key fst items))"

section \<open>The model manager\<close>

text \<open>
  The manager holds the tree (\<open>model_dict\<close>) and the index (\<open>model_map\<close>), and both
  refer to the same dictionary objects, which the caller may hold as well.  The
  dictionaries of the items therefore live in a store, and the tree and the index hold
  addresses: \<open>model_map['clock']\<close> is empty or one pair of a key and an item,
  \<open>model_map['module']\<close> maps a name to such a pair, \<open>model_map['object']\<close> maps a
  type to a map from names to pairs, and \<open>model_map['object_unnamed']\<close> is a list of
  pairs.  Names and types are compared as values; a dictionary is not hashable.
\<close>

type_synonym ref = nat

record manager =
  heap :: "ref \<Rightarrow> pydict"
  model_dict :: "(int \<times> ref) list"
  append_key :: int
  prepend_key :: int
  clock_map :: "(int \<times> ref) option"
  module_map :: "(pyval \<times> int \<times> ref) list"
  object_map :: "(pyval \<times> (pyval \<times> int \<times> ref) list) list"
  object_unnamed :: "(int \<times> ref) list"

definition unhashable :: "pyval \<Rightarrow> bool" where
  "unhashable v = (case v of VDict d \<Rightarrow> True | _ \<Rightarrow> False)"

text \<open>\<open>_get_item_type\<close>.\<close>

definition get_item_type :: "pydict \<Rightarrow> pyerr + string" where
  "get_item_type item_dict =
     (if has_key item_dict (KStr ''object'') then Inr ''object''
      else if has_key item_dict (KStr ''module'') then Inr ''module''
      else if has_key item_dict (KStr ''clock'') then Inr ''clock''
      else if has_key item_dict (KStr ''#include'') then Inr ''include''
      else if has_key item_dict (KStr ''#set'') then Inr ''set''
      else if has_key item_dict (KStr ''omftype'') then Inr ''omftype''
      else Inl (UserWarning UnknownType))"

definition no_map :: "string list" where
  "no_map = [''set'', ''include'']"

definition non_objects :: "string list" where
  "non_objects = [''clock'', ''module'', ''include'', ''set'', ''omftype'']"

text \<open>A method that returns nothing gives the exception it raised, if any, and the
  state it left behind.\<close>

definition add_clock_to_map :: "manager \<Rightarrow> int \<Rightarrow> ref \<Rightarrow> pyerr option \<times> manager" where
  "add_clock_to_map m model_key r =
     (if clock_map m \<noteq> None then (Some (UserWarning MultipleClocks), m)
      else (None, m\<lparr>clock_map := Some (model_key, r)\<rparr>))"

definition add_module_to_map :: "manager \<Rightarrow> int \<Rightarrow> ref \<Rightarrow> pyerr option \<times> manager" where
  "add_module_to_map m model_key r =
     (let module_dict = heap m r in
      case (if has_key module_dict (KStr ''module'')
            then Inr (the (dict_get module_dict (KStr ''module'')))
            else if has_key module_dict (KStr ''omftype'')
            then (case dict_get module_dict (KStr ''argument'') of
                    None \<Rightarrow> Inl KeyError | Some a \<Rightarrow> Inr a)
            else Inl (UserWarning MalformedModule)) of
        Inl e \<Rightarrow> (Some e, m)
      | Inr module_name \<Rightarrow>
          if unhashable module_name then (Some TypeError, m)
          else if has_key (module_map m) module_name
          then (Some (UserWarning (ModulePresent module_name)), m)
          else (None, m\<lparr>module_map := dict_set (module_map m) module_name (model_key, r)\<rparr>))"

definition add_object_to_map :: "manager \<Rightarrow> int \<Rightarrow> ref \<Rightarrow> pyerr option \<times> manager" where
  "add_object_to_map m model_key r =
     (let object_dict = heap m r in
      case dict_get object_dict (KStr ''object'') of
        None \<Rightarrow> (Some KeyError, m)
      | Some obj_type \<Rightarrow>
          if unhashable obj_type then (Some TypeError, m)
          else
            (let m1 = (if has_key (object_map m) obj_type then m
                       else m\<lparr>object_map := dict_set (object_map m) obj_type []\<rparr>);
                 names = (case dict_get (object_map m1) obj_type of
                            None \<Rightarrow> [] | Some ns \<Rightarrow> ns)
             in case dict_get object_dict (KStr ''name'') of
                  None \<Rightarrow>
                    (None, m1\<lparr>object_unnamed := object_unnamed m1 @ [(model_key, r)]\<rparr>)
                | Some nm \<Rightarrow>
                    if unhashable nm then (Some TypeError, m1)
                    else if has_key names nm
                    then (Some (UserWarning (ObjectExists nm obj_type)), m1)
                    else (None, m1\<lparr>object_map :=
                                     dict_set (object_map m1) obj_type
                                       (dict_set names nm (model_key, r))\<rparr>)))"

text \<open>\<open>_map_model_dict\<close>: one pass over the entries of the tree, and over those only.\<close>

definition map_item :: "manager \<Rightarrow> int \<Rightarrow> ref \<Rightarrow> pyerr option \<times> manager" where
  "map_item m model_key r =
     (case get_item_type (heap m r) of
        Inl e \<Rightarrow> (Some e, m)
      | Inr item_type \<Rightarrow>
          if item_type = ''object'' then add_object_to_map m model_key r
          else if item_type = ''clock'' then add_clock_to_map m model_key r
          else if item_type = ''module'' then add_module_to_map m model_key r
          else if item_type = ''omftype'' then
            (if dict_get (heap m r) (KStr ''omftype'') = Some (VStr ''module'')
             then add_module_to_map m model_key r else (None, m))
          else if item_type \<in> set no_map then (None, m)
          else (Some (UserWarning UnimplementedItem), m))"

fun map_model_dict :: "(int \<times> ref) list \<Rightarrow> manager \<Rightarrow> pyerr option \<times> manager" where
  "map_model_dict [] m = (None, m)"
| "map_model_dict ((model_key, r) # rest) m =
     (case map_item m model_key r of
        (Some e, m') \<Rightarrow> (Some e, m')
      | (None, m') \<Rightarrow> map_model_dict rest m')"

text \<open>\<open>__init__\<close>, from the tree that \<open>parse\<close> returned.  Every entry of such a tree
  is a dictionary; each gets an address of its own, in the order of the tree.
  \<open>max\<close> of no keys raises \<open>ValueError\<close>.\<close>

fun item_dicts :: "(int \<times> pyval) list \<Rightarrow> (int \<times> pydict) list option" where
  "item_dicts [] = Some []"
| "item_dicts ((k, v) # rest) =
     (case v of
        VDict d \<Rightarrow> (case item_dicts rest of None \<Rightarrow> None | Some r \<Rightarrow> Some ((k, d) # r))
      | _ \<Rightarrow> None)"

definition max_key :: "int list \<Rightarrow> int" where
  "max_key ks = fold max (tl ks) (hd ks)"

definition min_key :: "int list \<Rightarrow> int" where
  "min_key ks = fold min (tl ks) (hd ks)"

definition init_tree :: "pydict \<Rightarrow> pyerr + manager" where
  "init_tree t =
     (case int_keys t of
        None \<Rightarrow> Inl TypeError
      | Some kvs \<Rightarrow>
          (case item_dicts kvs of
             None \<Rightarrow> Inl TypeError
           | Some items \<Rightarrow>
               if items = [] then Inl ValueError
               else
                 (let keys = map fst items;
                      m = \<lparr>heap = (\<lambda>r. if r < length items then snd (items ! r) else []),
                           model_dict = zip keys [0..<length items],
                           append_key = max_key keys + 1,
                           prepend_key = min_key keys - 1,
                           clock_map = None, module_map = [], object_map = [],
                           object_unnamed = []\<rparr>
                  in case map_model_dict (model_dict m) m of
                       (Some e, m') \<Rightarrow> Inl e
                     | (None, m') \<Rightarrow> Inr m')))"

definition init :: "string \<Rightarrow> pyerr + manager" where
  "init model = (case parse model of Inl e \<Rightarrow> Inl e | Inr t \<Rightarrow> init_tree t)"

text \<open>\<open>add_item\<close>.  The loop that casts the values works on the caller's dictionary
  and stops at the first key that is not text.\<close>

fun cast_values :: "pydict \<Rightarrow> pydict \<times> bool" where
  "cast_values [] = ([], True)"
| "cast_values ((k, v) # d) =
     (case k of
        KInt i \<Rightarrow> ((k, v) # d, False)
      | KStr x \<Rightarrow> (case cast_values d of (d', ok) \<Rightarrow> ((k, VStr (py_str v)) # d', ok)))"

definition add_object :: "manager \<Rightarrow> ref \<Rightarrow> pyerr option \<times> manager" where
  "add_object m r =
     (case add_object_to_map m (append_key m) r of
        (Some e, m') \<Rightarrow> (Some e, m')
      | (None, m') \<Rightarrow>
          (None, m'\<lparr>model_dict := dict_set (model_dict m') (append_key m') r,
                    append_key := append_key m' + 1\<rparr>))"

definition add_non_object :: "manager \<Rightarrow> string \<Rightarrow> ref \<Rightarrow> pyerr option \<times> manager" where
  "add_non_object m item_type r =
     (case (if item_type = ''clock'' then add_clock_to_map m (prepend_key m) r
            else if item_type = ''module'' then add_module_to_map m (prepend_key m) r
            else if item_type \<in> set no_map then (None, m)
            else (Some (UserWarning (NoAddMethod item_type)), m)) of
        (Some e, m') \<Rightarrow> (Some e, m')
      | (None, m') \<Rightarrow>
          (None, m'\<lparr>model_dict := dict_set (model_dict m') (prepend_key m') r,
                    prepend_key := prepend_key m' - 1\<rparr>))"

definition add_item :: "manager \<Rightarrow> ref \<Rightarrow> pyerr option \<times> manager" where
  "add_item m r =
     (case get_item_type (heap m r) of
        Inl e \<Rightarrow> (Some e, m)
      | Inr item_type \<Rightarrow>
          (case cast_values (heap m r) of
             (d, ok) \<Rightarrow>
               (let m1 = m\<lparr>heap := (heap m)(r := d)\<rparr> in
                if \<not> ok then (Some (UserWarning KeysMustBeStrings), m1)
                else if item_type = ''object'' then add_object m1 r
                else if item_type \<in> set non_objects then add_non_object m1 item_type r
                else (Some (UserWarning (NoAddMethod item_type)), m1))))"

text \<open>The look-ups; a \<open>KeyError\<close> or \<open>IndexError\<close> becomes a \<open>UserWarning\<close>.\<close>

definition lookup_object :: "manager \<Rightarrow> pyval \<Rightarrow> pyval \<Rightarrow> pyerr + ref" where
  "lookup_object m object_type object_name =
     (if unhashable object_type then Inl TypeError
      else case dict_get (object_map m) object_type of
             None \<Rightarrow> Inl (UserWarning (ObjectMissing object_type object_name))
           | Some names \<Rightarrow>
               if unhashable object_name then Inl TypeError
               else (case dict_get names object_name of
                       None \<Rightarrow> Inl (UserWarning (ObjectMissing object_type object_name))
                     | Some (k, r) \<Rightarrow> Inr r))"

definition lookup_module :: "manager \<Rightarrow> pyval \<Rightarrow> pyerr + ref" where
  "lookup_module m module_name =
     (if unhashable module_name then Inl TypeError
      else case dict_get (module_map m) module_name of
             None \<Rightarrow> Inl (UserWarning (ModuleMissing module_name))
           | Some (k, r) \<Rightarrow> Inr r)"

definition lookup_clock :: "manager \<Rightarrow> pyerr + ref" where
  "lookup_clock m =
     (case clock_map m of None \<Rightarrow> Inl (UserWarning ClockMissing) | Some (k, r) \<Rightarrow> Inr r)"

text \<open>\<open>_find_object\<close>: \<open>None\<close> when the type or the name is not in the index.\<close>

definition find_object :: "manager \<Rightarrow> pyval \<Rightarrow> pyval \<Rightarrow> pyerr + ref option" where
  "find_object m obj_type obj_name =
     (case lookup_object m obj_type obj_name of
        Inr r \<Rightarrow> Inr (Some r)
      | Inl (UserWarning w) \<Rightarrow> Inr None
      | Inl e \<Rightarrow> Inl e)"








section \<open>Definitions used to state the properties\<close>

declare dict_to_string.simps [simp del]




text \<open>An item whose keys are all text, the item \<open>add_item\<close> leaves in the store when
  its loop runs to the end, and the caller building a dictionary at an address.\<close>

definition text_keys :: "pydict \<Rightarrow> bool" where
  "text_keys d = list_all (\<lambda>kv. case fst kv of KStr x \<Rightarrow> True | KInt i \<Rightarrow> False) d"

definition cast_all :: "pydict \<Rightarrow> pydict" where
  "cast_all d = map (\<lambda>kv. (fst kv, VStr (py_str (snd kv)))) d"

definition with_dict :: "manager \<Rightarrow> ref \<Rightarrow> pydict \<Rightarrow> manager" where
  "with_dict m r d = m\<lparr>heap := (heap m)(r := d)\<rparr>"

text \<open>A small model with a clock, a module and a named object, and three items a
  caller may try to add to it.\<close>

definition example_text :: string where
  "example_text =
     ''clock { timezone EST; } module tape; object load { name l1; phases ABC; }''"

definition example_manager :: manager where
  "example_manager = projr (init example_text)"

definition dup_clock :: manager where
  "dup_clock = with_dict example_manager 7
     [(KStr ''clock'', VStr ''clock''), (KStr ''timezone'', VStr ''UTC'')]"

definition dup_object :: manager where
  "dup_object = with_dict example_manager 7
     [(KStr ''object'', VStr ''load''), (KStr ''name'', VStr ''l1''), (KStr ''phases'', VInt 3)]"

definition dup_module :: manager where
  "dup_module = with_dict example_manager 7
     [(KStr ''module'', VStr ''tape''), (KStr ''port'', VInt 3306)]"



text \<open>Callers of \<open>add_item\<close> and \<open>modify_item\<close> on the small model.\<close>

definition new_object :: manager where
  "new_object = with_dict example_manager 7
     [(KStr ''object'', VStr ''recorder''), (KStr ''interval'', VInt 30)]"




text \<open>The keys of the tree; a run of \<open>add_item\<close> calls, each on a dictionary the
  caller has just built, counting the object adds and the other adds that returned;
  and what the two key counters are with respect to the keys of the tree.\<close>

definition tree_keys :: "manager \<Rightarrow> int list" where
  "tree_keys m = map fst (model_dict m)"

fun run_adds :: "manager \<Rightarrow> (ref \<times> pydict) list \<Rightarrow> manager \<times> nat \<times> nat" where
  "run_adds m [] = (m, 0, 0)"
| "run_adds m ((r, d) # calls) =
     (case add_item (with_dict m r d) r of
        (res, m') \<Rightarrow>
          (case run_adds m' calls of
             (m'', n, k) \<Rightarrow>
               if res \<noteq> None then (m'', n, k)
               else if get_item_type d = Inr ''object'' then (m'', Suc n, k)
               else (m'', n, Suc k)))"

definition new_directive :: manager where
  "new_directive = with_dict example_manager 8 [(KStr ''#set'', VStr ''randomseed=42'')]"

definition key_inv :: "manager \<Rightarrow> bool" where
  "key_inv m \<longleftrightarrow> tree_keys m \<noteq> [] \<and> append_key m = max_key (tree_keys m) + 1
                 \<and> prepend_key m = min_key (tree_keys m) - 1"

definition example_calls :: "(ref \<times> pydict) list" where
  "example_calls =
     [(7, [(KStr ''object'', VStr ''recorder''), (KStr ''interval'', VInt 30)]),
      (8, [(KStr ''#set'', VStr ''randomseed=42'')]),
      (9, [(KStr ''clock'', VStr ''clock'')]),
      (10, [(KStr ''object'', VStr ''load''), (KStr ''name'', VStr ''l2'')]),
      (11, [(KStr ''module'', VStr ''powerflow'')])]"


definition object_pairs :: "('a \<times> ('b \<times> int \<times> ref) list) list \<Rightarrow> (int \<times> ref) set" where
  "object_pairs om = {p. \<exists>ty names nm. (ty, names) \<in> set om \<and> (nm, p) \<in> set names}"

definition index_pairs :: "manager \<Rightarrow> (int \<times> ref) set" where
  "index_pairs m =
     set_option (clock_map m) \<union> snd ` set (module_map m)
     \<union> object_pairs (object_map m) \<union> set (object_unnamed m)"

definition pairs_in_tree :: "manager \<Rightarrow> bool" where
  "pairs_in_tree m \<longleftrightarrow> (\<forall>p \<in> index_pairs m. dict_get (model_dict m) (fst p) = Some (snd p))"



section \<open>The serializer on clocks\<close>




section \<open>Dictionaries\<close>

lemma dict_get_dict_set:
  "dict_get (dict_set d k v) k' = (if k' = k then Some v else dict_get d k')"
  by (induction d) (auto simp: dict_get_def)

lemma has_key_dict_get: "has_key d k \<longleftrightarrow> dict_get d k \<noteq> None"
  by (induction d) (auto simp: has_key_def dict_get_def)

lemma has_key_dict_set: "has_key (dict_set d k v) k' \<longleftrightarrow> k' = k \<or> has_key d k'"
  by (simp add: has_key_dict_get dict_get_dict_set)

lemma dict_get_dict_del:
  "dict_get (dict_del d k) k' = (if k' = k then None else dict_get d k')"
  by (induction d) (auto simp: dict_get_def dict_del_def)

lemma has_key_dict_del: "has_key (dict_del d k) k' \<longleftrightarrow> k' \<noteq> k \<and> has_key d k'"
  by (simp add: has_key_dict_get dict_get_dict_del)

lemma cast_values_text_keys: "text_keys d \<Longrightarrow> cast_values d = (cast_all d, True)"
  by (induction d) (auto simp: text_keys_def cast_all_def split: key.splits)

lemma dict_get_cast_all:
  "dict_get (cast_all d) k = map_option (\<lambda>v. VStr (py_str v)) (dict_get d k)"
  by (induction d) (auto simp: cast_all_def dict_get_def)

lemma has_key_cast_all: "has_key (cast_all d) k = has_key d k"
  by (simp add: has_key_dict_get dict_get_cast_all)

section \<open>Adding what is already there\<close>

text \<open>
  Claim C4.  Let the item passed to \<open>add_item\<close> have text keys only.  If it is a clock
  and the index holds a clock, \<open>add_item\<close> raises the warning for a second clock; if it
  is an object with a name and the index holds an object of this type and name (as
  text, which is how \<open>add_item\<close> looks them up), it raises the warning for an
  existing object; if it is a module and the index holds a module of this name, it
  raises the warning for an existing module.  These three \<open>UserWarning\<close>s are the
  code's \<open>DuplicateError\<close>.
\<close>

theorem add_item_duplicate:
  assumes "text_keys (heap m r)"
  shows "(get_item_type (heap m r) = Inr ''clock'' \<and> lookup_clock m = Inr c
            \<longrightarrow> fst (add_item m r) = Some (UserWarning MultipleClocks))
       \<and> (dict_get (heap m r) (KStr ''object'') = Some ty
            \<and> dict_get (heap m r) (KStr ''name'') = Some nm
            \<and> lookup_object m (VStr (py_str ty)) (VStr (py_str nm)) = Inr c
            \<longrightarrow> fst (add_item m r)
                  = Some (UserWarning (ObjectExists (VStr (py_str nm)) (VStr (py_str ty)))))
       \<and> (get_item_type (heap m r) = Inr ''module''
            \<and> dict_get (heap m r) (KStr ''module'') = Some nm
            \<and> lookup_module m (VStr (py_str nm)) = Inr c
            \<longrightarrow> fst (add_item m r) = Some (UserWarning (ModulePresent (VStr (py_str nm)))))"
proof (intro conjI impI)
  assume "get_item_type (heap m r) = Inr ''clock'' \<and> lookup_clock m = Inr c"
  then show "fst (add_item m r) = Some (UserWarning MultipleClocks)"
    using assms
    by (auto simp: add_item_def cast_values_text_keys non_objects_def add_non_object_def
        add_clock_to_map_def lookup_clock_def split: option.splits)
next
  assume a: "dict_get (heap m r) (KStr ''object'') = Some ty
            \<and> dict_get (heap m r) (KStr ''name'') = Some nm
            \<and> lookup_object m (VStr (py_str ty)) (VStr (py_str nm)) = Inr c"
  then have t: "get_item_type (heap m r) = Inr ''object''"
    by (simp add: get_item_type_def has_key_dict_get)
  from a obtain names k where n: "dict_get (object_map m) (VStr (py_str ty)) = Some names"
      "dict_get names (VStr (py_str nm)) = Some (k, c)"
    by (auto simp: lookup_object_def unhashable_def split: option.splits if_splits)
  show "fst (add_item m r)
                  = Some (UserWarning (ObjectExists (VStr (py_str nm)) (VStr (py_str ty))))"
    using assms a t n
    by (simp add: add_item_def cast_values_text_keys add_object_def add_object_to_map_def
        dict_get_cast_all has_key_dict_get unhashable_def Let_def)
next
  assume a: "get_item_type (heap m r) = Inr ''module''
            \<and> dict_get (heap m r) (KStr ''module'') = Some nm
            \<and> lookup_module m (VStr (py_str nm)) = Inr c"
  then obtain k where n: "dict_get (module_map m) (VStr (py_str nm)) = Some (k, c)"
    by (auto simp: lookup_module_def unhashable_def split: option.splits if_splits)
  show "fst (add_item m r) = Some (UserWarning (ModulePresent (VStr (py_str nm))))"
    using assms a n
    by (simp add: add_item_def cast_values_text_keys add_non_object_def add_module_to_map_def
        dict_get_cast_all has_key_dict_get has_key_cast_all unhashable_def Let_def
        non_objects_def)
qed

theorem add_item_duplicate_witness:
  "fst (add_item dup_clock 7) = Some (UserWarning MultipleClocks)
   \<and> fst (add_item dup_object 7)
       = Some (UserWarning (ObjectExists (VStr ''l1'') (VStr ''load'')))
   \<and> fst (add_item dup_module 7) = Some (UserWarning (ModulePresent (VStr ''tape'')))"
proof -
  have c: "text_keys (heap dup_clock 7)" "get_item_type (heap dup_clock 7) = Inr ''clock''"
    "lookup_clock dup_clock = Inr 0"
    by code_simp+
  have ob: "text_keys (heap dup_object 7)"
    "dict_get (heap dup_object 7) (KStr ''object'') = Some (VStr ''load'')"
    "dict_get (heap dup_object 7) (KStr ''name'') = Some (VStr ''l1'')"
    "lookup_object dup_object (VStr (py_str (VStr ''load''))) (VStr (py_str (VStr ''l1'')))
       = Inr 2"
    by code_simp+
  have md: "text_keys (heap dup_module 7)"
    "get_item_type (heap dup_module 7) = Inr ''module''"
    "dict_get (heap dup_module 7) (KStr ''module'') = Some (VStr ''tape'')"
    "lookup_module dup_module (VStr (py_str (VStr ''tape''))) = Inr 1"
    by code_simp+
  have s: "py_str (VStr ''load'') = ''load''" "py_str (VStr ''l1'') = ''l1''"
    "py_str (VStr ''tape'') = ''tape''"
    by (simp_all add: py_str_def)
  show ?thesis
    using add_item_duplicate [OF c(1), where c = 0]
      add_item_duplicate [OF ob(1), where c = 2 and ty = "VStr ''load''" and nm = "VStr ''l1''"]
      add_item_duplicate [OF md(1), where c = 1 and nm = "VStr ''tape''"] c ob md s
    by simp
qed

section \<open>Removing properties\<close>






section \<open>What the operations leave in the store and the tree\<close>

lemma cast_values_ok: "cast_values d = (d', True) \<Longrightarrow> d' = cast_all d"
  by (induction d arbitrary: d') (auto simp: cast_all_def split: key.splits prod.splits)

lemma add_object_to_map_heap: "heap (snd (add_object_to_map m k r)) = heap m"
  by (auto simp: add_object_to_map_def Let_def split: option.splits)

lemma add_clock_to_map_heap: "heap (snd (add_clock_to_map m k r)) = heap m"
  by (auto simp: add_clock_to_map_def)

lemma add_module_to_map_heap: "heap (snd (add_module_to_map m k r)) = heap m"
  by (auto simp: add_module_to_map_def Let_def split: sum.splits)

lemma add_object_to_map_keys:
  "append_key (snd (add_object_to_map m k r)) = append_key m"
  "prepend_key (snd (add_object_to_map m k r)) = prepend_key m"
  "model_dict (snd (add_object_to_map m k r)) = model_dict m"
  by (auto simp: add_object_to_map_def Let_def split: option.splits)

lemma add_clock_to_map_keys:
  "append_key (snd (add_clock_to_map m k r)) = append_key m"
  "prepend_key (snd (add_clock_to_map m k r)) = prepend_key m"
  "model_dict (snd (add_clock_to_map m k r)) = model_dict m"
  by (auto simp: add_clock_to_map_def)

lemma add_module_to_map_keys:
  "append_key (snd (add_module_to_map m k r)) = append_key m"
  "prepend_key (snd (add_module_to_map m k r)) = prepend_key m"
  "model_dict (snd (add_module_to_map m k r)) = model_dict m"
  by (auto simp: add_module_to_map_def Let_def split: sum.splits)

lemma add_object_ok:
  assumes "add_object m r = (None, m')"
  shows "heap m' = heap m" "model_dict m' = dict_set (model_dict m) (append_key m) r"
    "append_key m' = append_key m + 1" "prepend_key m' = prepend_key m"
proof -
  obtain res m1 where a: "add_object_to_map m (append_key m) r = (res, m1)"
    by (cases "add_object_to_map m (append_key m) r")
  with assms have res: "res = None" by (auto simp: add_object_def split: option.splits)
  have m1: "heap m1 = heap m" "append_key m1 = append_key m" "prepend_key m1 = prepend_key m"
    "model_dict m1 = model_dict m"
    using add_object_to_map_heap [of m "append_key m" r]
      add_object_to_map_keys [of m "append_key m" r] a by simp_all
  from assms a res have "m' = m1\<lparr>model_dict := dict_set (model_dict m1) (append_key m1) r,
                    append_key := append_key m1 + 1\<rparr>"
    by (simp add: add_object_def)
  with m1 show "heap m' = heap m" "model_dict m' = dict_set (model_dict m) (append_key m) r"
    "append_key m' = append_key m + 1" "prepend_key m' = prepend_key m"
    by simp_all
qed

lemma add_non_object_ok:
  assumes "add_non_object m ty r = (None, m')"
  shows "heap m' = heap m" "model_dict m' = dict_set (model_dict m) (prepend_key m) r"
    "append_key m' = append_key m" "prepend_key m' = prepend_key m - 1"
proof -
  define step where "step = (if ty = ''clock'' then add_clock_to_map m (prepend_key m) r
            else if ty = ''module'' then add_module_to_map m (prepend_key m) r
            else if ty \<in> set no_map then (None, m)
            else (Some (UserWarning (NoAddMethod ty)), m))"
  obtain res m1 where a: "step = (res, m1)" by (cases step)
  with assms have res: "res = None"
    by (auto simp: add_non_object_def step_def split: option.splits)
  have "heap (snd step) = heap m \<and> append_key (snd step) = append_key m
      \<and> prepend_key (snd step) = prepend_key m \<and> model_dict (snd step) = model_dict m"
    by (simp add: step_def add_clock_to_map_heap add_module_to_map_heap
        add_clock_to_map_keys add_module_to_map_keys)
  with a have m1: "heap m1 = heap m" "append_key m1 = append_key m"
    "prepend_key m1 = prepend_key m" "model_dict m1 = model_dict m"
    by simp_all
  from assms a res have "m' = m1\<lparr>model_dict := dict_set (model_dict m1) (prepend_key m1) r,
                    prepend_key := prepend_key m1 - 1\<rparr>"
    by (simp add: add_non_object_def step_def [symmetric])
  with m1 show "heap m' = heap m" "model_dict m' = dict_set (model_dict m) (prepend_key m) r"
    "append_key m' = append_key m" "prepend_key m' = prepend_key m - 1"
    by simp_all
qed

lemma add_item_ok:
  assumes "add_item m r = (None, m')"
  shows "heap m' = (heap m)(r := cast_all (heap m r))"
    and "get_item_type (heap m r) = Inr ''object'' \<Longrightarrow>
           model_dict m' = dict_set (model_dict m) (append_key m) r
           \<and> append_key m' = append_key m + 1 \<and> prepend_key m' = prepend_key m"
    and "get_item_type (heap m r) \<noteq> Inr ''object'' \<Longrightarrow>
           model_dict m' = dict_set (model_dict m) (prepend_key m) r
           \<and> append_key m' = append_key m \<and> prepend_key m' = prepend_key m - 1"
proof -
  from assms obtain ty where ty: "get_item_type (heap m r) = Inr ty"
    by (auto simp: add_item_def split: sum.splits)
  obtain d ok where c: "cast_values (heap m r) = (d, ok)" by (cases "cast_values (heap m r)")
  with assms ty have ok: "ok" by (auto simp: add_item_def Let_def split: if_splits)
  with c have d: "d = cast_all (heap m r)" using cast_values_ok [of "heap m r" d] by simp
  define m1 where "m1 = m\<lparr>heap := (heap m)(r := d)\<rparr>"
  have step: "(ty = ''object'' \<and> add_object m1 r = (None, m'))
      \<or> (ty \<noteq> ''object'' \<and> add_non_object m1 ty r = (None, m'))"
    using assms ty c ok by (auto simp: add_item_def Let_def m1_def split: if_splits)
  then show "heap m' = (heap m)(r := cast_all (heap m r))"
    using add_object_ok(1) [of m1 r m'] add_non_object_ok(1) [of m1 ty r m'] d
    by (auto simp: m1_def)
  show "get_item_type (heap m r) = Inr ''object'' \<Longrightarrow>
           model_dict m' = dict_set (model_dict m) (append_key m) r
           \<and> append_key m' = append_key m + 1 \<and> prepend_key m' = prepend_key m"
    using step ty add_object_ok [of m1 r m'] by (auto simp: m1_def)
  show "get_item_type (heap m r) \<noteq> Inr ''object'' \<Longrightarrow>
           model_dict m' = dict_set (model_dict m) (prepend_key m) r
           \<and> append_key m' = append_key m \<and> prepend_key m' = prepend_key m - 1"
    using step ty add_non_object_ok [of m1 ty r m'] by (auto simp: m1_def)
qed



section \<open>The keys of the tree\<close>

lemma max_key_Max: "ks \<noteq> [] \<Longrightarrow> max_key ks = Max (set ks)"
  by (cases ks) (simp_all add: max_key_def Max.set_eq_fold [symmetric])

lemma min_key_Min: "ks \<noteq> [] \<Longrightarrow> min_key ks = Min (set ks)"
  by (cases ks) (simp_all add: min_key_def Min.set_eq_fold [symmetric])

lemma map_fst_dict_set:
  "map fst (dict_set d k v) = (if k \<in> set (map fst d) then map fst d else map fst d @ [k])"
  by (induction d) (force simp: image_iff)+

lemma keys_dict_set: "set (map fst (dict_set d k v)) = insert k (set (map fst d))"
  by (simp only: map_fst_dict_set) auto

lemma dict_set_not_Nil: "dict_set d k v \<noteq> []"
  by (cases d) (auto split: if_splits)

lemma max_key_dict_set:
  "d \<noteq> [] \<Longrightarrow> max_key (map fst (dict_set d k v)) = max k (max_key (map fst d))"
  using keys_dict_set [of d k v] by (simp add: max_key_Max dict_set_not_Nil)

lemma min_key_dict_set:
  "d \<noteq> [] \<Longrightarrow> min_key (map fst (dict_set d k v)) = min k (min_key (map fst d))"
  using keys_dict_set [of d k v] by (simp add: min_key_Min dict_set_not_Nil)

lemma min_key_le_max_key: "ks \<noteq> [] \<Longrightarrow> min_key ks \<le> max_key ks"
  by (simp add: min_key_Min max_key_Max)

lemma add_item_failed:
  assumes "add_item m r = (Some e, m')"
  shows "model_dict m' = model_dict m \<and> append_key m' = append_key m
           \<and> prepend_key m' = prepend_key m"
proof -
  have ob: "model_dict (snd (add_object m1 r)) = model_dict m1
      \<and> append_key (snd (add_object m1 r)) = append_key m1
      \<and> prepend_key (snd (add_object m1 r)) = prepend_key m1"
    if "fst (add_object m1 r) \<noteq> None" for m1
    using that add_object_to_map_keys [of m1 "append_key m1" r]
    by (cases "add_object_to_map m1 (append_key m1) r")
      (auto simp: add_object_def split: option.splits)
  have nob: "model_dict (snd (add_non_object m1 ty r)) = model_dict m1
      \<and> append_key (snd (add_non_object m1 ty r)) = append_key m1
      \<and> prepend_key (snd (add_non_object m1 ty r)) = prepend_key m1"
    if "fst (add_non_object m1 ty r) \<noteq> None" for m1 ty
    using that add_clock_to_map_keys [of m1 "prepend_key m1" r]
      add_module_to_map_keys [of m1 "prepend_key m1" r]
    by (cases "add_clock_to_map m1 (prepend_key m1) r";
        cases "add_module_to_map m1 (prepend_key m1) r")
      (auto simp: add_non_object_def split: option.splits if_splits)
  show ?thesis
  proof (cases "get_item_type (heap m r)")
    case (Inl e')
    with assms show ?thesis by (simp add: add_item_def)
  next
    case (Inr ty)
    obtain d ok where c: "cast_values (heap m r) = (d, ok)"
      by (cases "cast_values (heap m r)")
    define m1 where "m1 = m\<lparr>heap := (heap m)(r := d)\<rparr>"
    have k1: "model_dict m1 = model_dict m" "append_key m1 = append_key m"
      "prepend_key m1 = prepend_key m"
      by (simp_all add: m1_def)
    from assms Inr c consider "m' = m1"
      | "add_object m1 r = (Some e, m')" | "add_non_object m1 ty r = (Some e, m')"
      by (auto simp: add_item_def Let_def m1_def split: if_splits)
    then show ?thesis
    proof cases
      case 1
      with k1 show ?thesis by simp
    next
      case 2
      with ob [of m1] k1 show ?thesis by simp
    next
      case 3
      with nob [of m1 ty] k1 show ?thesis by simp
    qed
  qed
qed

lemma map_item_keys:
  "model_dict (snd (map_item m k r)) = model_dict m"
  "append_key (snd (map_item m k r)) = append_key m"
  "prepend_key (snd (map_item m k r)) = prepend_key m"
  "heap (snd (map_item m k r)) = heap m"
  by (auto simp: map_item_def add_object_to_map_keys add_clock_to_map_keys
      add_module_to_map_keys add_object_to_map_heap add_clock_to_map_heap
      add_module_to_map_heap split: sum.splits)

lemma map_model_dict_keys:
  "model_dict (snd (map_model_dict kvs m)) = model_dict m
   \<and> append_key (snd (map_model_dict kvs m)) = append_key m
   \<and> prepend_key (snd (map_model_dict kvs m)) = prepend_key m
   \<and> heap (snd (map_model_dict kvs m)) = heap m"
proof (induction kvs arbitrary: m)
  case Nil
  then show ?case by simp
next
  case (Cons kv kvs)
  obtain k r where kv: "kv = (k, r)" by (cases kv)
  obtain res m1 where s: "map_item m k r = (res, m1)" by (cases "map_item m k r")
  have m1: "model_dict m1 = model_dict m" "append_key m1 = append_key m"
    "prepend_key m1 = prepend_key m" "heap m1 = heap m"
    using map_item_keys [of m k r] s by simp_all
  show ?case
    using Cons.IH [of m1] m1 s kv by (cases res) simp_all
qed

lemma init_tree_key_inv:
  assumes "init_tree t = Inr m"
  shows "key_inv m"
proof -
  from assms obtain kvs items where i: "int_keys t = Some kvs" "item_dicts kvs = Some items"
    "items \<noteq> []"
    by (auto simp: init_tree_def split: option.splits if_splits)
  define m0 where "m0 = \<lparr>heap = (\<lambda>r. if r < length items then snd (items ! r) else []),
                           model_dict = zip (map fst items) [0..<length items],
                           append_key = max_key (map fst items) + 1,
                           prepend_key = min_key (map fst items) - 1,
                           clock_map = None, module_map = [], object_map = [],
                           object_unnamed = []\<rparr>"
  from assms i have "m = snd (map_model_dict (model_dict m0) m0)"
    by (auto simp: init_tree_def Let_def m0_def split: prod.splits option.splits)
  then have "model_dict m = model_dict m0" "append_key m = append_key m0"
    "prepend_key m = prepend_key m0"
    using map_model_dict_keys [of "model_dict m0" m0] by simp_all
  moreover have "map fst (model_dict m0) = map fst items"
    by (simp add: m0_def)
  ultimately show ?thesis
    using i(3) by (simp add: key_inv_def tree_keys_def m0_def)
qed

lemma add_item_step:
  assumes inv: "key_inv m" and a: "add_item m r = (res, m')"
  shows "key_inv m'"
    and "res = None \<Longrightarrow> get_item_type (heap m r) = Inr ''object'' \<Longrightarrow>
           max_key (tree_keys m') = max_key (tree_keys m) + 1
           \<and> min_key (tree_keys m') = min_key (tree_keys m)"
    and "res = None \<Longrightarrow> get_item_type (heap m r) \<noteq> Inr ''object'' \<Longrightarrow>
           max_key (tree_keys m') = max_key (tree_keys m)
           \<and> min_key (tree_keys m') = min_key (tree_keys m) - 1"
    and "res \<noteq> None \<Longrightarrow> tree_keys m' = tree_keys m"
proof -
  from inv have ne: "model_dict m \<noteq> []" and ak: "append_key m = max_key (tree_keys m) + 1"
    and pk: "prepend_key m = min_key (tree_keys m) - 1"
    by (auto simp: key_inv_def tree_keys_def)
  have le: "min_key (tree_keys m) \<le> max_key (tree_keys m)"
    using ne by (simp add: min_key_le_max_key tree_keys_def)
  show f: "res \<noteq> None \<Longrightarrow> tree_keys m' = tree_keys m"
    using a add_item_failed [of m r _ m'] by (auto simp: tree_keys_def)
  show o: "max_key (tree_keys m') = max_key (tree_keys m) + 1
           \<and> min_key (tree_keys m') = min_key (tree_keys m)"
    if "res = None" "get_item_type (heap m r) = Inr ''object''"
    using add_item_ok(2) [of m r m'] a that ne ak le
    by (simp add: tree_keys_def max_key_dict_set min_key_dict_set)
  show n: "max_key (tree_keys m') = max_key (tree_keys m)
           \<and> min_key (tree_keys m') = min_key (tree_keys m) - 1"
    if "res = None" "get_item_type (heap m r) \<noteq> Inr ''object''"
    using add_item_ok(3) [of m r m'] a that ne pk le
    by (simp add: tree_keys_def max_key_dict_set min_key_dict_set)
  show "key_inv m'"
  proof (cases res)
    case None
    show ?thesis
    proof (cases "get_item_type (heap m r) = Inr ''object''")
      case True
      with None o add_item_ok(2) [of m r m'] a ak pk show ?thesis
        by (simp add: key_inv_def tree_keys_def dict_set_not_Nil)
    next
      case False
      with None n add_item_ok(3) [of m r m'] a ak pk show ?thesis
        by (simp add: key_inv_def tree_keys_def dict_set_not_Nil)
    qed
  next
    case (Some e)
    with a add_item_failed [of m r e m'] inv show ?thesis
      by (simp add: key_inv_def tree_keys_def)
  qed
qed

lemma with_dict_key_inv: "key_inv (with_dict m r d) = key_inv m"
  by (simp add: key_inv_def with_dict_def tree_keys_def)

lemma run_adds_bounds:
  "key_inv m \<Longrightarrow> run_adds m calls = (m', n, k) \<Longrightarrow>
     key_inv m' \<and> max_key (tree_keys m') = max_key (tree_keys m) + int n
     \<and> min_key (tree_keys m') = min_key (tree_keys m) - int k"
proof (induction calls arbitrary: m m' n k)
  case Nil
  then show ?case by simp
next
  case (Cons c calls)
  obtain r d where c: "c = (r, d)" by (cases c)
  obtain res m1 where s: "add_item (with_dict m r d) r = (res, m1)"
    by (cases "add_item (with_dict m r d) r")
  obtain m2 n2 k2 where t: "run_adds m1 calls = (m2, n2, k2)"
    by (cases "run_adds m1 calls") auto
  have inv: "key_inv (with_dict m r d)" using Cons.prems(1) by (simp add: with_dict_key_inv)
  have h: "heap (with_dict m r d) r = d" "tree_keys (with_dict m r d) = tree_keys m"
    by (simp_all add: with_dict_def tree_keys_def)
  note st = add_item_step [OF inv s, unfolded h]
  note ih = Cons.IH [OF st(1) t]
  show ?case
  proof (cases res)
    case (Some e)
    with Cons.prems(2) c s t have "m' = m2" "n = n2" "k = k2" by simp_all
    with ih st(4) Some show ?thesis by simp
  next
    case None
    show ?thesis
    proof (cases "get_item_type d = Inr ''object''")
      case True
      with None Cons.prems(2) c s t have "m' = m2" "n = Suc n2" "k = k2" by simp_all
      with ih st(2) None True show ?thesis by simp
    next
      case False
      with None Cons.prems(2) c s t have "m' = m2" "n = n2" "k = Suc k2" by simp_all
      with ih st(3) None False show ?thesis by simp
    qed
  qed
qed

text \<open>
  Claim C8.  An \<open>add_item\<close> of an object that returns has inserted the item at
  \<open>append_key\<close> and increased \<open>append_key\<close> by one; an \<open>add_item\<close> of a clock,
  module or directive that returns has inserted the item at \<open>prepend_key\<close> and
  decreased \<open>prepend_key\<close> by one.  From a manager just built, whose tree has its
  keys between \<open>lo\<close> and \<open>hi\<close>, after any run of \<open>add_item\<close> calls of which \<open>n\<close>
  object adds and \<open>k\<close> other adds returned, the least key of the tree is \<open>lo - k\<close>
  and the greatest is \<open>hi + n\<close>, and the two counters are one beyond them.
\<close>

theorem key_monotonicity:
  "(add_item m r = (None, m') \<and> get_item_type (heap m r) = Inr ''object'' \<longrightarrow>
      dict_get (model_dict m') (append_key m) = Some r
      \<and> append_key m' = append_key m + 1 \<and> prepend_key m' = prepend_key m)
   \<and> (add_item m r = (None, m') \<and> get_item_type (heap m r) \<noteq> Inr ''object'' \<longrightarrow>
      dict_get (model_dict m') (prepend_key m) = Some r
      \<and> prepend_key m' = prepend_key m - 1 \<and> append_key m' = append_key m)
   \<and> (init model = Inr m0 \<and> run_adds m0 calls = (m1, n, k) \<longrightarrow>
      min_key (tree_keys m1) = min_key (tree_keys m0) - int k
      \<and> max_key (tree_keys m1) = max_key (tree_keys m0) + int n
      \<and> append_key m1 = max_key (tree_keys m1) + 1
      \<and> prepend_key m1 = min_key (tree_keys m1) - 1)"
proof -
  have 1: "dict_get (model_dict m') (append_key m) = Some r
      \<and> append_key m' = append_key m + 1 \<and> prepend_key m' = prepend_key m"
    if "add_item m r = (None, m') \<and> get_item_type (heap m r) = Inr ''object''"
    using add_item_ok(2) [of m r m'] that by (simp add: dict_get_dict_set)
  have 2: "dict_get (model_dict m') (prepend_key m) = Some r
      \<and> prepend_key m' = prepend_key m - 1 \<and> append_key m' = append_key m"
    if "add_item m r = (None, m') \<and> get_item_type (heap m r) \<noteq> Inr ''object''"
    using add_item_ok(3) [of m r m'] that by (simp add: dict_get_dict_set)
  have 3: "min_key (tree_keys m1) = min_key (tree_keys m0) - int k
      \<and> max_key (tree_keys m1) = max_key (tree_keys m0) + int n
      \<and> append_key m1 = max_key (tree_keys m1) + 1
      \<and> prepend_key m1 = min_key (tree_keys m1) - 1"
    if a: "init model = Inr m0 \<and> run_adds m0 calls = (m1, n, k)"
  proof -
    from a obtain t where "init_tree t = Inr m0"
      by (auto simp: init_def split: sum.splits)
    then have "key_inv m0" by (rule init_tree_key_inv)
    from run_adds_bounds [OF this] a show ?thesis
      by (auto simp: key_inv_def)
  qed
  from 1 2 3 show ?thesis by blast
qed

theorem key_monotonicity_witness:
  "dict_get (model_dict (snd (add_item new_object 7))) 3 = Some 7
   \<and> append_key (snd (add_item new_object 7)) = 4
   \<and> dict_get (model_dict (snd (add_item new_directive 8))) (- 1) = Some 8
   \<and> prepend_key (snd (add_item new_directive 8)) = - 2
   \<and> min_key (tree_keys (fst (run_adds example_manager example_calls))) = - 2
   \<and> max_key (tree_keys (fst (run_adds example_manager example_calls))) = 4"
proof -
  have "fst (add_item new_object 7) = None" by code_simp
  then have a: "add_item new_object 7 = (None, snd (add_item new_object 7))"
    by (simp add: prod_eq_iff)
  have ta: "get_item_type (heap new_object 7) = Inr ''object''"
    "append_key new_object = 3" "prepend_key new_object = - 1"
    by code_simp+
  have "fst (add_item new_directive 8) = None" by code_simp
  then have b: "add_item new_directive 8 = (None, snd (add_item new_directive 8))"
    by (simp add: prod_eq_iff)
  have "get_item_type (heap new_directive 8) = Inr ''set''" by code_simp
  then have tb: "get_item_type (heap new_directive 8) \<noteq> Inr ''object''" by simp
  have kb: "append_key new_directive = 3" "prepend_key new_directive = - 1"
    by code_simp+
  have "isl (init example_text) = False" by code_simp
  then have i: "init example_text = Inr example_manager"
    by (cases "init example_text") (simp_all add: example_manager_def)
  have "fst (snd (run_adds example_manager example_calls)) = 2"
    "snd (snd (run_adds example_manager example_calls)) = 2"
    by code_simp+
  then have r: "run_adds example_manager example_calls
      = (fst (run_adds example_manager example_calls), 2, 2)"
    by (simp add: prod_eq_iff)
  have k0: "min_key (tree_keys example_manager) = 0" "max_key (tree_keys example_manager) = 2"
    by code_simp+
  show ?thesis
    using key_monotonicity [of new_object 7 "snd (add_item new_object 7)"] a ta
      key_monotonicity [of new_directive 8 "snd (add_item new_directive 8)"] b tb kb
      key_monotonicity [of _ _ _ example_text example_manager example_calls
        "fst (run_adds example_manager example_calls)" 2 2] i r k0
    by simp
qed

section \<open>The keys of a parsed tree are distinct\<close>










section \<open>The index and the tree hold the same objects\<close>



lemma index_pairs_heap [simp]: "index_pairs (m\<lparr>heap := h\<rparr>) = index_pairs m"
  by (simp add: index_pairs_def)








lemma pairs_in_tree_heap [simp]: "pairs_in_tree (m\<lparr>heap := h\<rparr>) = pairs_in_tree m"
  by (simp add: pairs_in_tree_def)

lemma key_inv_heap [simp]: "key_inv (m\<lparr>heap := h\<rparr>) = key_inv m"
  by (simp add: key_inv_def tree_keys_def)



















end
